theory Spec2Isabelle
  imports Main "HOL-Library.Sublist" "HOL-Library.Char_ord" "HOL-Library.List_Lexorder"
begin

section \<open>Lead profile\<close>

text \<open>
  The dataclass \<^verbatim>\<open>LeadProfile\<close> of \<^verbatim>\<open>agent.py\<close>: seven attributes of type
  \<^verbatim>\<open>str | None\<close>, all defaulting to \<^verbatim>\<open>None\<close>. A Python \<^verbatim>\<open>str\<close> is a \<open>string\<close>
  here and \<^verbatim>\<open>None\<close> is \<open>None\<close>.
\<close>

record LeadProfile =
  name :: "string option"
  company :: "string option"
  email :: "string option"
  role :: "string option"
  use_case :: "string option"
  team_size :: "string option"
  timeline :: "string option"

text \<open>\<^verbatim>\<open>LeadProfile()\<close>: the profile a session starts with.\<close>

definition new_profile :: LeadProfile where
  "new_profile = \<lparr>name = None, company = None, email = None, role = None,
     use_case = None, team_size = None, timeline = None\<rparr>"

text \<open>
  Python's truth value of an \<^verbatim>\<open>Optional[str]\<close>, as tested by \<^verbatim>\<open>if name:\<close> and by
  \<^verbatim>\<open>all([...])\<close>: \<^verbatim>\<open>None\<close> and the empty string are false, every other string is true.
\<close>

fun truthy :: "string option \<Rightarrow> bool" where
  "truthy None = False"
| "truthy (Some s) = (s \<noteq> [])"

text \<open>Python's builtin \<^verbatim>\<open>all\<close> on a list of truth values.\<close>

fun py_all :: "bool list \<Rightarrow> bool" where
  "py_all [] = True"
| "py_all (b # bs) = (b \<and> py_all bs)"

text \<open>\<^verbatim>\<open>return all([self.name, self.email, self.use_case])\<close>\<close>

definition is_qualified :: "LeadProfile \<Rightarrow> bool" where
  "is_qualified self = py_all [truthy (name self), truthy (email self), truthy (use_case self)]"

section \<open>The profile update tool\<close>

text \<open>
  The keyword parameters of \<^verbatim>\<open>update_lead_profile\<close>, each \<^verbatim>\<open>Optional[str]\<close> with default
  \<^verbatim>\<open>None\<close>. The suffix keeps them apart from the attributes of the profile.
\<close>

record update_args =
  name_arg :: "string option"
  company_arg :: "string option"
  email_arg :: "string option"
  role_arg :: "string option"
  use_case_arg :: "string option"
  team_size_arg :: "string option"
  timeline_arg :: "string option"

text \<open>A call that passes no keyword at all: every parameter takes its default.\<close>

definition no_args :: update_args where
  "no_args = \<lparr>name_arg = None, company_arg = None, email_arg = None, role_arg = None,
     use_case_arg = None, team_size_arg = None, timeline_arg = None\<rparr>"

text \<open>
  The body of \<^verbatim>\<open>update_lead_profile\<close>: seven guarded assignments on the shared profile, in
  the order of the source, then the fixed acknowledgement. The mutation of
  \<^verbatim>\<open>ctx.userdata.lead_profile\<close> is the returned profile; the \<^verbatim>\<open>print\<close> is not modelled.
\<close>

definition update_lead_profile :: "LeadProfile \<Rightarrow> update_args \<Rightarrow> LeadProfile \<times> string" where
  "update_lead_profile profile a =
    (let profile = (if truthy (name_arg a) then profile\<lparr>name := name_arg a\<rparr> else profile);
         profile = (if truthy (company_arg a) then profile\<lparr>company := company_arg a\<rparr> else profile);
         profile = (if truthy (email_arg a) then profile\<lparr>email := email_arg a\<rparr> else profile);
         profile = (if truthy (role_arg a) then profile\<lparr>role := role_arg a\<rparr> else profile);
         profile = (if truthy (use_case_arg a) then profile\<lparr>use_case := use_case_arg a\<rparr> else profile);
         profile = (if truthy (team_size_arg a) then profile\<lparr>team_size := team_size_arg a\<rparr> else profile);
         profile = (if truthy (timeline_arg a) then profile\<lparr>timeline := timeline_arg a\<rparr> else profile)
     in (profile, ''Lead profile updated successfully.''))"

text \<open>A sequence of update calls on one profile, each call working on what the previous left.\<close>

fun update_all :: "LeadProfile \<Rightarrow> update_args list \<Rightarrow> LeadProfile" where
  "update_all profile [] = profile"
| "update_all profile (a # as) = update_all (fst (update_lead_profile profile a)) as"

text \<open>
  The last non-empty value in a list of supplied values (\<open>None\<close> when the list supplies
  none): the reading of "the last non-empty value supplied for a field".
\<close>

fun last_supplied :: "string option list \<Rightarrow> string option" where
  "last_supplied [] = None"
| "last_supplied (v # vs) =
     (case last_supplied vs of
        Some s \<Rightarrow> Some s
      | None \<Rightarrow> (if truthy v then v else None))"

text \<open>
  The exceptions the program can meet: a method that the value does not have, a file that
  cannot be opened, read or written, and a text that \<^verbatim>\<open>json.load\<close> rejects.
\<close>

datatype py_error = AttributeError | OSError | JSONDecodeError

text \<open>
  The names of the keyword parameters in the signature of \<^verbatim>\<open>update_lead_profile\<close>
  (lines 110 to 116): the recognized keys.
\<close>

definition parameter_names :: "string list" where
  "parameter_names =
     [''name'', ''company'', ''email'', ''role'', ''use_case'', ''team_size'', ''timeline'']"

text \<open>
  Modelled from the spec: the tool-call boundary of sections 4.2 and 6, which the
  repository leaves to the framework behind \<^verbatim>\<open>@function_tool\<close> and which is not in the
  source. The operation is called with a mapping from field names to optional values:
  \<open>given k = None\<close> when the key \<open>k\<close> is absent, \<open>Some None\<close> when it is present without a
  value, \<open>Some (Some s)\<close> when it carries the string \<open>s\<close>. Each of the seven parameters
  takes what the mapping gives for its name and its default \<^verbatim>\<open>None\<close> when the name is
  absent; no other key of the mapping is looked at.
\<close>

definition field_value :: "(string \<rightharpoonup> string option) \<Rightarrow> string \<Rightarrow> string option" where
  "field_value given k = (case given k of None \<Rightarrow> None | Some v \<Rightarrow> v)"

definition bind_fields :: "(string \<rightharpoonup> string option) \<Rightarrow> update_args" where
  "bind_fields given =
     \<lparr>name_arg = field_value given ''name'', company_arg = field_value given ''company'',
      email_arg = field_value given ''email'', role_arg = field_value given ''role'',
      use_case_arg = field_value given ''use_case'',
      team_size_arg = field_value given ''team_size'',
      timeline_arg = field_value given ''timeline''\<rparr>"

text \<open>
  Modelled from the spec: \<^verbatim>\<open>update(profile, fields)\<close> of section 4.2, the update as the
  tool-call boundary runs it: the body of \<^verbatim>\<open>update_lead_profile\<close> on the bound parameters.
\<close>

definition update_tool_call ::
  "LeadProfile \<Rightarrow> (string \<rightharpoonup> string option) \<Rightarrow> LeadProfile \<times> string" where
  "update_tool_call profile given = update_lead_profile profile (bind_fields given)"

text \<open>
  The invariant of the profile's attributes: a value is either unset or a non-empty string.
\<close>

fun unset_or_nonempty :: "string option \<Rightarrow> bool" where
  "unset_or_nonempty None = True"
| "unset_or_nonempty (Some s) = (s \<noteq> [])"

definition no_empty_field :: "LeadProfile \<Rightarrow> bool" where
  "no_empty_field p =
     (unset_or_nonempty (name p) \<and> unset_or_nonempty (company p) \<and> unset_or_nonempty (email p) \<and>
      unset_or_nonempty (role p) \<and> unset_or_nonempty (use_case p) \<and>
      unset_or_nonempty (team_size p) \<and> unset_or_nonempty (timeline p))"

section \<open>JSON files\<close>

text \<open>
  The values \<^verbatim>\<open>json.load\<close> returns and \<^verbatim>\<open>json.dump\<close> accepts. Arrays and objects keep
  their order (a Python list, and a dict in insertion order). The program creates only
  strings, \<^verbatim>\<open>None\<close>, lists and dicts; it never looks inside a number.
\<close>

datatype json =
    JNull
  | JBool bool
  | JNum int
  | JStr string
  | JArr "json list"
  | JObj "(string \<times> json) list"

text \<open>
  One file of the program's directory, as the program can observe it. Its text is kept
  as what \<^verbatim>\<open>json.load\<close> makes of it: \<open>Unparsable\<close> is any text on which \<^verbatim>\<open>json.load\<close> raises
  (malformed JSON, undecodable bytes, a document cut short), \<open>Doc j\<close> is a text that loads
  as \<open>j\<close>; \<^verbatim>\<open>json.dump\<close> of \<open>j\<close> leaves such a text. \<open>content = None\<close> is the absent file.
  The environment decides whether opening for reading succeeds (\<open>readable\<close>) and what a
  write does (\<open>writes\<close>): it goes through, it is refused when the file is opened, or it
  breaks off after the file was truncated, which leaves an incomplete document.
\<close>

datatype file_content = Unparsable | Doc json

datatype write_behaviour = Write_OK | Write_Refused | Write_Broken

record file_state =
  content :: "file_content option"
  readable :: bool
  writes :: write_behaviour

text \<open>\<^verbatim>\<open>os.path.exists(path)\<close>\<close>

definition path_exists :: "file_state \<Rightarrow> bool" where
  "path_exists f = (content f \<noteq> None)"

text \<open>\<^verbatim>\<open>with open(path, "r") as f: ... json.load(f)\<close>: the value, or the exception raised.\<close>

definition read_json :: "file_state \<Rightarrow> py_error + json" where
  "read_json f =
     (case content f of
        None \<Rightarrow> Inl OSError
      | Some c \<Rightarrow>
          if \<not> readable f then Inl OSError
          else (case c of Unparsable \<Rightarrow> Inl JSONDecodeError | Doc j \<Rightarrow> Inr j))"

text \<open>
  \<^verbatim>\<open>with open(path, "w") as f: json.dump(data, f, indent=4)\<close>: the exception, if any, and the
  file afterwards.
\<close>

definition write_json :: "file_state \<Rightarrow> json \<Rightarrow> py_error option \<times> file_state" where
  "write_json f data =
     (case writes f of
        Write_OK \<Rightarrow> (None, f\<lparr>content := Some (Doc data)\<rparr>)
      | Write_Refused \<Rightarrow> (Some OSError, f)
      | Write_Broken \<Rightarrow> (Some OSError, f\<lparr>content := Some Unparsable\<rparr>))"

section \<open>Finalize and persist\<close>

text \<open>A profile attribute as a JSON value: \<^verbatim>\<open>None\<close> is written as \<^verbatim>\<open>null\<close>.\<close>

fun json_of :: "string option \<Rightarrow> json" where
  "json_of None = JNull"
| "json_of (Some s) = JStr s"

text \<open>\<^verbatim>\<open>dataclasses.asdict(profile)\<close>: the attributes in the order of their declaration.\<close>

definition asdict :: "LeadProfile \<Rightarrow> (string \<times> json) list" where
  "asdict profile =
     [(''name'', json_of (name profile)), (''company'', json_of (company profile)),
      (''email'', json_of (email profile)), (''role'', json_of (role profile)),
      (''use_case'', json_of (use_case profile)), (''team_size'', json_of (team_size profile)),
      (''timeline'', json_of (timeline profile))]"

text \<open>
  \<^verbatim>\<open>entry = asdict(profile); entry["timestamp"] = datetime.now().isoformat()\<close>. The reading
  of the clock, already in ISO format, is the parameter \<open>now\<close>.
\<close>

definition lead_entry :: "LeadProfile \<Rightarrow> string \<Rightarrow> json" where
  "lead_entry profile now = JObj (asdict profile @ [(''timestamp'', JStr now)])"

text \<open>An attribute inside an f-string: \<^verbatim>\<open>None\<close> prints as \<^verbatim>\<open>None\<close>.\<close>

fun format_field :: "string option \<Rightarrow> string" where
  "format_field None = ''None''"
| "format_field (Some s) = s"

definition closing_message :: "LeadProfile \<Rightarrow> string" where
  "closing_message profile =
     ''Thanks '' @ format_field (name profile) @ ''! I have recorded your interest in '' @
     format_field (use_case profile) @ ''. We will contact you soon at '' @
     format_field (email profile) @ ''. Goodbye!''"

text \<open>
  Lines 139 to 144: \<^verbatim>\<open>existing_data = []\<close>, replaced by what the file loads as when the file
  exists and loading raises nothing (the bare \<^verbatim>\<open>except: pass\<close> keeps the empty list).
\<close>

definition load_existing :: "file_state \<Rightarrow> json" where
  "load_existing f =
     (if path_exists f
      then (case read_json f of Inl e \<Rightarrow> JArr [] | Inr j \<Rightarrow> j)
      else JArr [])"

text \<open>\<^verbatim>\<open>existing_data.append(entry)\<close>: only a list has \<^verbatim>\<open>append\<close>.\<close>

fun py_append :: "json \<Rightarrow> json \<Rightarrow> py_error + json" where
  "py_append (JArr xs) x = Inr (JArr (xs @ [x]))"
| "py_append _ x = Inl AttributeError"

text \<open>
  \<^verbatim>\<open>submit_lead_and_end\<close>: the closing message or the exception that leaves the function, and
  the lead file afterwards.
\<close>

definition submit_lead_and_end ::
  "LeadProfile \<Rightarrow> string \<Rightarrow> file_state \<Rightarrow> (py_error + string) \<times> file_state" where
  "submit_lead_and_end profile now db =
     (let entry = lead_entry profile now;
          existing_data = load_existing db
      in case py_append existing_data entry of
           Inl e \<Rightarrow> (Inl e, db)
         | Inr existing_data \<Rightarrow>
             (case write_json db existing_data of
                (Some e, db') \<Rightarrow> (Inl e, db')
              | (None, db') \<Rightarrow> (Inr (closing_message profile), db')))"

text \<open>
  Finalize calls one after the other on the same lead file, each with its own profile and
  its own reading of the clock; the first exception ends the run.
\<close>

fun submit_each ::
  "(LeadProfile \<times> string) list \<Rightarrow> file_state \<Rightarrow> (py_error + string list) \<times> file_state" where
  "submit_each [] db = (Inr [], db)"
| "submit_each ((profile, now) # calls) db =
     (case submit_lead_and_end profile now db of
        (Inl e, db') \<Rightarrow> (Inl e, db')
      | (Inr msg, db') \<Rightarrow>
          (case submit_each calls db' of
             (Inl e, db'') \<Rightarrow> (Inl e, db'')
           | (Inr msgs, db'') \<Rightarrow> (Inr (msg # msgs), db'')))"

text \<open>
  The lead store a file holds, as finalize reads it: the records of the array in the file,
  and no record when the file is absent, cannot be read, or does not load as an array.
\<close>

definition store_records :: "file_state \<Rightarrow> json list" where
  "store_records f =
     (case content f of
        Some (Doc (JArr xs)) \<Rightarrow> (if readable f then xs else [])
      | _ \<Rightarrow> [])"

text \<open>
  A lead file finalize can extend: anything but a readable file holding a JSON document
  that is not an array.
\<close>

fun is_array :: "json \<Rightarrow> bool" where
  "is_array (JArr xs) = True"
| "is_array _ = False"

definition store_usable :: "file_state \<Rightarrow> bool" where
  "store_usable f =
     (case content f of
        Some (Doc j) \<Rightarrow> (if readable f then is_array j else True)
      | _ \<Rightarrow> True)"

text \<open>The capture timestamps of a list of records, in order.\<close>

fun record_timestamp :: "json \<Rightarrow> string option" where
  "record_timestamp (JObj kvs) =
     (case map_of kvs ''timestamp'' of Some (JStr t) \<Rightarrow> Some t | _ \<Rightarrow> None)"
| "record_timestamp _ = None"

definition timestamps_of :: "json list \<Rightarrow> string list" where
  "timestamps_of records = List.map_filter record_timestamp records"

section \<open>Knowledge base\<close>

definition DEFAULT_FAQ :: json where
  "DEFAULT_FAQ = JArr
     [JObj [(''question'', JStr ''What do you sell?''),
            (''answer'', JStr ''I offer professional training in AI, Chatbot Development, Java Web Development and Voice AI Agents. I also provide project guidance and mentorship for students.'')],
      JObj [(''question'', JStr ''How much does the AI course cost?''),
            (''answer'', JStr (''The AI & Chatbot Development course starts from '' @
               [CHR 0xE2, CHR 0x82, CHR 0xB9] @
               ''4,999 depending on the module depth and duration.''))],
      JObj [(''question'', JStr ''Do you provide certificates?''),
            (''answer'', JStr ''Yes, all paid courses include a verified completion certificate and project mentoring support.'')],
      JObj [(''question'', JStr ''Do you offer project help?''),
            (''answer'', JStr ''Yes, I help students build real-world AI and chatbot projects for academic and professional use.'')]]"

text \<open>
  The \<^verbatim>\<open>try\<close> block of \<^verbatim>\<open>load_knowledge_base\<close>: seed the absent file with \<^verbatim>\<open>DEFAULT_FAQ\<close>, then
  read the file and serialize what it loads as. \<^verbatim>\<open>json.dumps\<close> is the parameter \<open>dumps\<close>.
\<close>

definition load_knowledge_base_try ::
  "(json \<Rightarrow> string) \<Rightarrow> file_state \<Rightarrow> (py_error + string) \<times> file_state" where
  "load_knowledge_base_try dumps path =
     (case (if \<not> path_exists path then write_json path DEFAULT_FAQ else (None, path)) of
        (Some e, path') \<Rightarrow> (Inl e, path')
      | (None, path') \<Rightarrow>
          (case read_json path' of
             Inl e \<Rightarrow> (Inl e, path')
           | Inr j \<Rightarrow> (Inr (dumps j), path')))"

text \<open>
  \<^verbatim>\<open>load_knowledge_base\<close>: \<^verbatim>\<open>except Exception\<close> turns every exception of the block into the
  empty string.
\<close>

definition load_knowledge_base :: "(json \<Rightarrow> string) \<Rightarrow> file_state \<Rightarrow> string \<times> file_state" where
  "load_knowledge_base dumps path =
     (case load_knowledge_base_try dumps path of
        (Inl e, path') \<Rightarrow> ('''', path')
      | (Inr text, path') \<Rightarrow> (text, path'))"

section \<open>Properties of the profile update\<close>

lemma truthy_Some: "truthy v \<Longrightarrow> \<exists>s. v = Some s \<and> s \<noteq> []"
  by (cases v) auto

lemma name_after_update [simp]:
  "name (fst (update_lead_profile p a)) = (if truthy (name_arg a) then name_arg a else name p)"
  by (simp add: update_lead_profile_def Let_def)

lemma company_after_update [simp]:
  "company (fst (update_lead_profile p a)) =
     (if truthy (company_arg a) then company_arg a else company p)"
  by (simp add: update_lead_profile_def Let_def)

lemma email_after_update [simp]:
  "email (fst (update_lead_profile p a)) = (if truthy (email_arg a) then email_arg a else email p)"
  by (simp add: update_lead_profile_def Let_def)

lemma role_after_update [simp]:
  "role (fst (update_lead_profile p a)) = (if truthy (role_arg a) then role_arg a else role p)"
  by (simp add: update_lead_profile_def Let_def)

lemma use_case_after_update [simp]:
  "use_case (fst (update_lead_profile p a)) =
     (if truthy (use_case_arg a) then use_case_arg a else use_case p)"
  by (simp add: update_lead_profile_def Let_def)

lemma team_size_after_update [simp]:
  "team_size (fst (update_lead_profile p a)) =
     (if truthy (team_size_arg a) then team_size_arg a else team_size p)"
  by (simp add: update_lead_profile_def Let_def)

lemma timeline_after_update [simp]:
  "timeline (fst (update_lead_profile p a)) =
     (if truthy (timeline_arg a) then timeline_arg a else timeline p)"
  by (simp add: update_lead_profile_def Let_def)

lemma snd_update_lead_profile [simp]:
  "snd (update_lead_profile p a) = ''Lead profile updated successfully.''"
  by (simp add: update_lead_profile_def Let_def)

text \<open>
  Any attribute that one call treats as a guarded assignment ends, after a sequence of
  calls, at the last non-empty value supplied, or where it started.
\<close>

lemma update_all_field:
  assumes step: "\<And>p a. get (fst (update_lead_profile p a)) =
                   (if truthy (arg a) then arg a else get p)"
  shows "get (update_all p calls) =
           (case last_supplied (map arg calls) of Some s \<Rightarrow> Some s | None \<Rightarrow> get p)"
proof (induction calls arbitrary: p)
  case Nil
  then show ?case by simp
next
  case (Cons a calls)
  show ?case
  proof (cases "last_supplied (map arg calls)")
    case None
    then show ?thesis
      using Cons.IH [of "fst (update_lead_profile p a)"] step [of p a]
      by (auto dest: truthy_Some)
  next
    case (Some s)
    then show ?thesis
      using Cons.IH [of "fst (update_lead_profile p a)"] by simp
  qed
qed

lemma no_empty_field_update:
  "no_empty_field p \<Longrightarrow> no_empty_field (fst (update_lead_profile p a))"
  unfolding no_empty_field_def by (auto dest: truthy_Some)

lemma no_empty_field_update_all:
  "no_empty_field p \<Longrightarrow> no_empty_field (update_all p calls)"
  by (induction calls arbitrary: p) (simp_all add: no_empty_field_update)

text \<open>
  C1. After any sequence of update calls on one profile, each of the seven attributes holds
  the last non-empty value the sequence supplied for it, and the value it had before the
  sequence when none was supplied; and in a single call an argument that is absent
  (\<open>None\<close>) or empty leaves the attribute as it was.
\<close>

theorem update_sequence_last_supplied:
  "name (update_all p calls) =
     (case last_supplied (map name_arg calls) of Some s \<Rightarrow> Some s | None \<Rightarrow> name p) \<and>
   company (update_all p calls) =
     (case last_supplied (map company_arg calls) of Some s \<Rightarrow> Some s | None \<Rightarrow> company p) \<and>
   email (update_all p calls) =
     (case last_supplied (map email_arg calls) of Some s \<Rightarrow> Some s | None \<Rightarrow> email p) \<and>
   role (update_all p calls) =
     (case last_supplied (map role_arg calls) of Some s \<Rightarrow> Some s | None \<Rightarrow> role p) \<and>
   use_case (update_all p calls) =
     (case last_supplied (map use_case_arg calls) of Some s \<Rightarrow> Some s | None \<Rightarrow> use_case p) \<and>
   team_size (update_all p calls) =
     (case last_supplied (map team_size_arg calls) of Some s \<Rightarrow> Some s | None \<Rightarrow> team_size p) \<and>
   timeline (update_all p calls) =
     (case last_supplied (map timeline_arg calls) of Some s \<Rightarrow> Some s | None \<Rightarrow> timeline p) \<and>
   (\<not> truthy (name_arg a) \<longrightarrow> name (fst (update_lead_profile p a)) = name p) \<and>
   (\<not> truthy (company_arg a) \<longrightarrow> company (fst (update_lead_profile p a)) = company p) \<and>
   (\<not> truthy (email_arg a) \<longrightarrow> email (fst (update_lead_profile p a)) = email p) \<and>
   (\<not> truthy (role_arg a) \<longrightarrow> role (fst (update_lead_profile p a)) = role p) \<and>
   (\<not> truthy (use_case_arg a) \<longrightarrow> use_case (fst (update_lead_profile p a)) = use_case p) \<and>
   (\<not> truthy (team_size_arg a) \<longrightarrow> team_size (fst (update_lead_profile p a)) = team_size p) \<and>
   (\<not> truthy (timeline_arg a) \<longrightarrow> timeline (fst (update_lead_profile p a)) = timeline p)"
proof -
  have "name (update_all p calls) =
      (case last_supplied (map name_arg calls) of Some s \<Rightarrow> Some s | None \<Rightarrow> name p)"
    by (rule update_all_field) (rule name_after_update)
  moreover have "company (update_all p calls) =
      (case last_supplied (map company_arg calls) of Some s \<Rightarrow> Some s | None \<Rightarrow> company p)"
    by (rule update_all_field) (rule company_after_update)
  moreover have "email (update_all p calls) =
      (case last_supplied (map email_arg calls) of Some s \<Rightarrow> Some s | None \<Rightarrow> email p)"
    by (rule update_all_field) (rule email_after_update)
  moreover have "role (update_all p calls) =
      (case last_supplied (map role_arg calls) of Some s \<Rightarrow> Some s | None \<Rightarrow> role p)"
    by (rule update_all_field) (rule role_after_update)
  moreover have "use_case (update_all p calls) =
      (case last_supplied (map use_case_arg calls) of Some s \<Rightarrow> Some s | None \<Rightarrow> use_case p)"
    by (rule update_all_field) (rule use_case_after_update)
  moreover have "team_size (update_all p calls) =
      (case last_supplied (map team_size_arg calls) of Some s \<Rightarrow> Some s | None \<Rightarrow> team_size p)"
    by (rule update_all_field) (rule team_size_after_update)
  moreover have "timeline (update_all p calls) =
      (case last_supplied (map timeline_arg calls) of Some s \<Rightarrow> Some s | None \<Rightarrow> timeline p)"
    by (rule update_all_field) (rule timeline_after_update)
  ultimately show ?thesis by simp
qed

text \<open>
  The sequence name "Asha", then an empty name with an email, then name "Bea", then
  nothing: the name ends as "Bea", the email as given, the company unset; and the call with
  the empty name leaves "Asha" in place.
\<close>

theorem update_sequence_last_supplied_witness:
  "name (update_all new_profile
     [no_args\<lparr>name_arg := Some ''Asha''\<rparr>,
      no_args\<lparr>name_arg := Some [], email_arg := Some ''asha@x.com''\<rparr>,
      no_args\<lparr>name_arg := Some ''Bea''\<rparr>, no_args]) = Some ''Bea'' \<and>
   email (update_all new_profile
     [no_args\<lparr>name_arg := Some ''Asha''\<rparr>,
      no_args\<lparr>name_arg := Some [], email_arg := Some ''asha@x.com''\<rparr>,
      no_args\<lparr>name_arg := Some ''Bea''\<rparr>, no_args]) = Some ''asha@x.com'' \<and>
   company (update_all new_profile
     [no_args\<lparr>name_arg := Some ''Asha''\<rparr>,
      no_args\<lparr>name_arg := Some [], email_arg := Some ''asha@x.com''\<rparr>,
      no_args\<lparr>name_arg := Some ''Bea''\<rparr>, no_args]) = None \<and>
   \<not> truthy (name_arg (no_args\<lparr>name_arg := Some [], email_arg := Some ''asha@x.com''\<rparr>)) \<and>
   name (fst (update_lead_profile (new_profile\<lparr>name := Some ''Asha''\<rparr>)
     (no_args\<lparr>name_arg := Some [], email_arg := Some ''asha@x.com''\<rparr>))) = Some ''Asha''"
  using update_sequence_last_supplied
    [of new_profile
        "[no_args\<lparr>name_arg := Some ''Asha''\<rparr>,
          no_args\<lparr>name_arg := Some [], email_arg := Some ''asha@x.com''\<rparr>,
          no_args\<lparr>name_arg := Some ''Bea''\<rparr>, no_args]"]
    update_sequence_last_supplied
    [of "new_profile\<lparr>name := Some ''Asha''\<rparr>" "[]"
        "no_args\<lparr>name_arg := Some [], email_arg := Some ''asha@x.com''\<rparr>"]
  by (simp add: no_args_def new_profile_def)

text \<open>
  C2. \<^verbatim>\<open>is_qualified\<close> is true exactly when name, email and use case are each set to a
  non-empty string; company, role, team size and timeline have no influence on it.
\<close>

theorem is_qualified_iff:
  "is_qualified p =
     (\<exists>n e u. name p = Some n \<and> n \<noteq> [] \<and> email p = Some e \<and> e \<noteq> [] \<and>
        use_case p = Some u \<and> u \<noteq> []) \<and>
   is_qualified (p\<lparr>company := c, role := r, team_size := t, timeline := w\<rparr>) = is_qualified p"
proof -
  have "truthy v = (\<exists>s. v = Some s \<and> s \<noteq> [])" for v
    by (cases v) auto
  then show ?thesis
    by (auto simp: is_qualified_def)
qed

theorem is_qualified_iff_witness:
  "is_qualified \<lparr>name = Some ''Asha'', company = None, email = Some ''asha@x.com'', role = None,
     use_case = Some ''chatbot'', team_size = None, timeline = None\<rparr> \<and>
   \<not> is_qualified \<lparr>name = Some ''Asha'', company = Some ''Acme'', email = Some [],
     role = Some ''CTO'', use_case = Some ''chatbot'', team_size = Some ''5'',
     timeline = Some ''now''\<rparr>"
  using is_qualified_iff
    [of "\<lparr>name = Some ''Asha'', company = None, email = Some ''asha@x.com'', role = None,
          use_case = Some ''chatbot'', team_size = None, timeline = None\<rparr>"]
    is_qualified_iff
    [of "\<lparr>name = Some ''Asha'', company = Some ''Acme'', email = Some [],
          role = Some ''CTO'', use_case = Some ''chatbot'', team_size = Some ''5'',
          timeline = Some ''now''\<rparr>"]
  by simp

text \<open>
  C6. The update is idempotent: with the same arguments, a second call right after the
  first returns the same acknowledgement and leaves the profile as the first call left it.
\<close>

theorem update_idempotent:
  "update_lead_profile (fst (update_lead_profile p a)) a = update_lead_profile p a"
proof -
  have "fst (update_lead_profile (fst (update_lead_profile p a)) a) =
        fst (update_lead_profile p a)"
    by (rule LeadProfile.equality) simp_all
  then show ?thesis
    by (simp add: prod_eq_iff)
qed

theorem update_idempotent_witness:
  "update_lead_profile
     (fst (update_lead_profile (new_profile\<lparr>company := Some ''Acme''\<rparr>)
        (no_args\<lparr>name_arg := Some ''Asha'', company_arg := Some []\<rparr>)))
     (no_args\<lparr>name_arg := Some ''Asha'', company_arg := Some []\<rparr>) =
   (new_profile\<lparr>name := Some ''Asha'', company := Some ''Acme''\<rparr>,
    ''Lead profile updated successfully.'')"
  using update_idempotent
    [of "new_profile\<lparr>company := Some ''Acme''\<rparr>"
        "no_args\<lparr>name_arg := Some ''Asha'', company_arg := Some []\<rparr>"]
  by (simp add: update_lead_profile_def no_args_def new_profile_def)

text \<open>
  C10. Starting from the empty profile, after any sequence of update calls every attribute
  is unset or a non-empty string: the guards never let an empty string in.
\<close>

theorem update_never_stores_empty:
  "no_empty_field (update_all new_profile calls)"
proof (rule no_empty_field_update_all)
  show "no_empty_field new_profile"
    by (simp add: no_empty_field_def new_profile_def)
qed

theorem update_never_stores_empty_witness:
  "name (update_all new_profile
     [no_args\<lparr>name_arg := Some [], email_arg := Some ''asha@x.com''\<rparr>,
      no_args\<lparr>email_arg := Some []\<rparr>]) = None \<and>
   email (update_all new_profile
     [no_args\<lparr>name_arg := Some [], email_arg := Some ''asha@x.com''\<rparr>,
      no_args\<lparr>email_arg := Some []\<rparr>]) = Some ''asha@x.com'' \<and>
   no_empty_field (update_all new_profile
     [no_args\<lparr>name_arg := Some [], email_arg := Some ''asha@x.com''\<rparr>,
      no_args\<lparr>email_arg := Some []\<rparr>])"
  using update_never_stores_empty
    [of "[no_args\<lparr>name_arg := Some [], email_arg := Some ''asha@x.com''\<rparr>,
          no_args\<lparr>email_arg := Some []\<rparr>]"]
  by (simp add: no_args_def new_profile_def)

section \<open>Properties of finalize\<close>

lemma load_existing_cases:
  "load_existing db =
     (case content db of
        Some (Doc j) \<Rightarrow> (if readable db then j else JArr [])
      | _ \<Rightarrow> JArr [])"
  by (simp add: load_existing_def path_exists_def read_json_def
      split: option.splits file_content.splits)

lemma load_existing_usable:
  "store_usable db \<Longrightarrow> load_existing db = JArr (store_records db)"
  by (auto simp: load_existing_cases store_usable_def store_records_def
      split: option.splits file_content.splits json.splits)

lemma submit_usable:
  assumes "writes db = Write_OK" and "store_usable db"
  shows "submit_lead_and_end p now db =
     (Inr (closing_message p),
      db\<lparr>content := Some (Doc (JArr (store_records db @ [lead_entry p now])))\<rparr>)"
  using assms
  by (simp add: submit_lead_and_end_def load_existing_usable write_json_def)

text \<open>
  The two ways out of \<^verbatim>\<open>submit_lead_and_end\<close> by an exception, for any profile: the file loads
  as a JSON document that is not an array, so \<^verbatim>\<open>append\<close> does not exist; or the write fails.
\<close>

lemma submit_not_array:
  assumes "content db = Some (Doc j)" and "readable db" and "\<not> is_array j"
  shows "submit_lead_and_end p now db = (Inl AttributeError, db)"
  using assms
  by (cases j) (simp_all add: submit_lead_and_end_def load_existing_cases)

lemma submit_write_fails:
  assumes "writes db \<noteq> Write_OK" and "store_usable db"
  shows "fst (submit_lead_and_end p now db) = Inl OSError"
  using assms
  by (cases "writes db")
     (simp_all add: submit_lead_and_end_def load_existing_usable write_json_def)

lemma submit_each_usable:
  assumes "writes db = Write_OK" and "readable db" and "store_usable db"
  shows "submit_each calls db =
     (Inr (map (\<lambda>(p, now). closing_message p) calls),
      if calls = [] then db
      else db\<lparr>content := Some (Doc (JArr (store_records db @
             map (\<lambda>(p, now). lead_entry p now) calls)))\<rparr>)"
  using assms
proof (induction calls arbitrary: db)
  case Nil
  then show ?case by simp
next
  case (Cons c calls)
  obtain p now where c: "c = (p, now)" by (cases c)
  let ?db = "db\<lparr>content := Some (Doc (JArr (store_records db @ [lead_entry p now])))\<rparr>"
  have first: "submit_lead_and_end p now db = (Inr (closing_message p), ?db)"
    using Cons.prems by (simp add: submit_usable)
  have env: "writes ?db = Write_OK" "readable ?db" "store_usable ?db"
    using Cons.prems by (simp_all add: store_usable_def)
  have store: "store_records ?db = store_records db @ [lead_entry p now]"
    using Cons.prems by (simp add: store_records_def)
  show ?case
    using Cons.IH [OF env] by (simp add: c first store)
qed

lemma record_timestamp_entry [simp]: "record_timestamp (lead_entry p now) = Some now"
  by (simp add: lead_entry_def asdict_def)

lemma timestamps_of_entries:
  "timestamps_of (map (\<lambda>(p, now). lead_entry p now) calls) = map snd calls"
  by (induction calls) (auto simp: timestamps_of_def List.map_filter_simps)

text \<open>
  C3. Finalize never looks at whether the profile is qualified. For every profile, on a
  lead file that can be written and is absent, unreadable, unparsable or an array, it
  returns its closing message and leaves the file holding the records it read followed by
  exactly one new record, the profile's.
\<close>

theorem finalize_succeeds_on_every_profile:
  assumes "writes db = Write_OK" and "store_usable db"
  shows "submit_lead_and_end p now db =
     (Inr (closing_message p),
      db\<lparr>content := Some (Doc (JArr (store_records db @ [lead_entry p now])))\<rparr>)"
  using assms by (rule submit_usable)

text \<open>
  The empty profile is not qualified; finalize on a file of one earlier record still
  succeeds, greets \<^verbatim>\<open>None\<close>, and appends a record of seven nulls and the timestamp.
\<close>

theorem finalize_succeeds_on_every_profile_witness:
  "\<not> is_qualified new_profile \<and>
   writes \<lparr>content = Some (Doc (JArr [JStr ''earlier''])), readable = True, writes = Write_OK\<rparr>
     = Write_OK \<and>
   store_usable
     \<lparr>content = Some (Doc (JArr [JStr ''earlier''])), readable = True, writes = Write_OK\<rparr> \<and>
   submit_lead_and_end new_profile ''2026-11-04T10:00:00''
     \<lparr>content = Some (Doc (JArr [JStr ''earlier''])), readable = True, writes = Write_OK\<rparr> =
   (Inr ''Thanks None! I have recorded your interest in None. We will contact you soon at None. Goodbye!'',
    \<lparr>content = Some (Doc (JArr [JStr ''earlier'',
        JObj [(''name'', JNull), (''company'', JNull), (''email'', JNull), (''role'', JNull),
              (''use_case'', JNull), (''team_size'', JNull), (''timeline'', JNull),
              (''timestamp'', JStr ''2026-11-04T10:00:00'')]])),
     readable = True, writes = Write_OK\<rparr>)"
  using finalize_succeeds_on_every_profile
    [of "\<lparr>content = Some (Doc (JArr [JStr ''earlier''])), readable = True, writes = Write_OK\<rparr>"
        new_profile "''2026-11-04T10:00:00''"]
  by (simp add: store_usable_def store_records_def is_qualified_def new_profile_def
      closing_message_def lead_entry_def asdict_def)

text \<open>
  The recovery of lines 141 to 144 where it applies: the file is absent, or opening it or
  \<^verbatim>\<open>json.load\<close> raises. Finalize then goes on with the empty list and a writable file ends
  up holding the array of the new record alone.
\<close>

lemma finalize_recovers_when_load_raises:
  assumes "writes db = Write_OK"
    and "content db = None \<or> content db = Some Unparsable \<or> \<not> readable db"
  shows "submit_lead_and_end p now db =
     (Inr (closing_message p), db\<lparr>content := Some (Doc (JArr [lead_entry p now]))\<rparr>)"
proof -
  from assms(2) have "store_usable db" and "store_records db = []"
    by (auto simp: store_usable_def store_records_def
        split: option.splits file_content.splits json.splits)
  with assms(1) show ?thesis
    by (simp add: submit_usable)
qed

text \<open>
  C4. A lead file whose content is damaged is to be treated as an empty store and replaced
  by the array of the new record. The \<^verbatim>\<open>try\<close> of lines 141 to 144 does so only when loading
  raises. A readable file that loads, without any exception, as a JSON value that is not a
  list is damaged content as well (the store is an array of records), and there nothing is
  caught: \<^verbatim>\<open>existing_data\<close> is that value, \<^verbatim>\<open>existing_data.append(entry)\<close> at line 146 raises
  \<^verbatim>\<open>AttributeError\<close>, no message is returned and the file stays as it was. Shown at a file
  holding \<^verbatim>\<open>{"a": 1}\<close> and at a file holding \<^verbatim>\<open>null\<close>, both readable and writable.
\<close>

theorem finalize_raises_on_non_array_store:
  "submit_lead_and_end (new_profile\<lparr>name := Some ''Asha''\<rparr>) ''2026-11-04T10:00:00''
     \<lparr>content = Some (Doc (JObj [(''a'', JNum 1)])), readable = True, writes = Write_OK\<rparr> =
   (Inl AttributeError,
    \<lparr>content = Some (Doc (JObj [(''a'', JNum 1)])), readable = True, writes = Write_OK\<rparr>) \<and>
   submit_lead_and_end (new_profile\<lparr>name := Some ''Asha''\<rparr>) ''2026-11-04T10:00:00''
     \<lparr>content = Some (Doc JNull), readable = True, writes = Write_OK\<rparr> =
   (Inl AttributeError, \<lparr>content = Some (Doc JNull), readable = True, writes = Write_OK\<rparr>)"
  by (simp add: submit_lead_and_end_def load_existing_def path_exists_def read_json_def)

text \<open>
  C5, as the claim states it, fails in its last part. The timestamp of a record is the
  reading of \<^verbatim>\<open>datetime.now()\<close> at line 137, the naive local wall time, and finalize does
  nothing to order the readings. Two calls in a row on an absent file, the second reading
  an hour behind the first (the clocks went back in between): both calls return, and the
  timestamps in the store decrease.
\<close>

theorem finalize_timestamps_can_decrease:
  "fst (submit_each
     [(new_profile\<lparr>name := Some ''Asha''\<rparr>, ''2026-10-25T02:59:59.500000''),
      (new_profile\<lparr>name := Some ''Bea''\<rparr>, ''2026-10-25T02:00:00.250000'')]
     \<lparr>content = None, readable = True, writes = Write_OK\<rparr>) =
   Inr [closing_message (new_profile\<lparr>name := Some ''Asha''\<rparr>),
        closing_message (new_profile\<lparr>name := Some ''Bea''\<rparr>)] \<and>
   timestamps_of (store_records (snd (submit_each
     [(new_profile\<lparr>name := Some ''Asha''\<rparr>, ''2026-10-25T02:59:59.500000''),
      (new_profile\<lparr>name := Some ''Bea''\<rparr>, ''2026-10-25T02:00:00.250000'')]
     \<lparr>content = None, readable = True, writes = Write_OK\<rparr>))) =
   [''2026-10-25T02:59:59.500000'', ''2026-10-25T02:00:00.250000''] \<and>
   \<not> sorted (timestamps_of (store_records (snd (submit_each
     [(new_profile\<lparr>name := Some ''Asha''\<rparr>, ''2026-10-25T02:59:59.500000''),
      (new_profile\<lparr>name := Some ''Bea''\<rparr>, ''2026-10-25T02:00:00.250000'')]
     \<lparr>content = None, readable = True, writes = Write_OK\<rparr>))))"
proof -
  let ?db = "\<lparr>content = None, readable = True, writes = Write_OK\<rparr>"
  let ?calls = "[(new_profile\<lparr>name := Some ''Asha''\<rparr>, ''2026-10-25T02:59:59.500000''),
      (new_profile\<lparr>name := Some ''Bea''\<rparr>, ''2026-10-25T02:00:00.250000'')]"
  have env: "writes ?db = Write_OK" "readable ?db" "store_usable ?db"
    by (simp_all add: store_usable_def)
  have run: "submit_each ?calls ?db =
     (Inr [closing_message (new_profile\<lparr>name := Some ''Asha''\<rparr>),
           closing_message (new_profile\<lparr>name := Some ''Bea''\<rparr>)],
      \<lparr>content = Some (Doc (JArr
         [lead_entry (new_profile\<lparr>name := Some ''Asha''\<rparr>) ''2026-10-25T02:59:59.500000'',
          lead_entry (new_profile\<lparr>name := Some ''Bea''\<rparr>) ''2026-10-25T02:00:00.250000''])),
       readable = True, writes = Write_OK\<rparr>)"
    using submit_each_usable [OF env, of ?calls]
    by (simp del: submit_each.simps add: store_records_def)
  show ?thesis
    unfolding run
    by (simp add: store_records_def timestamps_of_def List.map_filter_simps)
qed

text \<open>
  C5, amended. From an absent or empty lead file that can be read and written, \<open>N\<close>
  finalize calls in a row all return and leave a store of exactly \<open>N\<close> records in the order
  of the calls: the \<open>i\<close>-th record is the \<open>i\<close>-th call's profile with the \<open>i\<close>-th reading of
  the clock, so the stored timestamps are the readings of the wall clock in call order.
\<close>

theorem sequential_finalize_calls:
  assumes "writes db = Write_OK" and "readable db"
    and "content db = None \<or> content db = Some (Doc (JArr []))"
  shows "fst (submit_each calls db) = Inr (map (\<lambda>(p, now). closing_message p) calls) \<and>
     store_records (snd (submit_each calls db)) = map (\<lambda>(p, now). lead_entry p now) calls \<and>
     length (store_records (snd (submit_each calls db))) = length calls \<and>
     timestamps_of (store_records (snd (submit_each calls db))) = map snd calls"
proof -
  from assms(3) have usable: "store_usable db" and empty: "store_records db = []"
    by (auto simp: store_usable_def store_records_def)
  have run: "submit_each calls db =
     (Inr (map (\<lambda>(p, now). closing_message p) calls),
      if calls = [] then db
      else db\<lparr>content := Some (Doc (JArr (map (\<lambda>(p, now). lead_entry p now) calls)))\<rparr>)"
    using submit_each_usable [OF assms(1,2) usable, of calls] by (simp add: empty)
  have store: "store_records (snd (submit_each calls db)) =
      map (\<lambda>(p, now). lead_entry p now) calls"
  proof (cases "calls = []")
    case True
    then show ?thesis by (simp add: empty)
  next
    case False
    then show ?thesis using assms(2) by (simp add: run store_records_def)
  qed
  have msgs: "fst (submit_each calls db) = Inr (map (\<lambda>(p, now). closing_message p) calls)"
    by (simp add: run)
  have stamps: "timestamps_of (store_records (snd (submit_each calls db))) = map snd calls"
    unfolding store by (rule timestamps_of_entries)
  show ?thesis
    unfolding stamps using msgs store by simp
qed

theorem sequential_finalize_calls_witness:
  "fst (submit_each
     [(new_profile\<lparr>name := Some ''Asha''\<rparr>, ''2026-11-04T10:00:00''),
      (new_profile, ''2026-11-04T10:00:00.000250'')]
     \<lparr>content = None, readable = True, writes = Write_OK\<rparr>) =
   Inr [closing_message (new_profile\<lparr>name := Some ''Asha''\<rparr>), closing_message new_profile] \<and>
   store_records (snd (submit_each
     [(new_profile\<lparr>name := Some ''Asha''\<rparr>, ''2026-11-04T10:00:00''),
      (new_profile, ''2026-11-04T10:00:00.000250'')]
     \<lparr>content = None, readable = True, writes = Write_OK\<rparr>)) =
   [lead_entry (new_profile\<lparr>name := Some ''Asha''\<rparr>) ''2026-11-04T10:00:00'',
    lead_entry new_profile ''2026-11-04T10:00:00.000250''] \<and>
   timestamps_of (store_records (snd (submit_each
     [(new_profile\<lparr>name := Some ''Asha''\<rparr>, ''2026-11-04T10:00:00''),
      (new_profile, ''2026-11-04T10:00:00.000250'')]
     \<lparr>content = None, readable = True, writes = Write_OK\<rparr>))) =
   [''2026-11-04T10:00:00'', ''2026-11-04T10:00:00.000250'']"
  using sequential_finalize_calls
    [of "\<lparr>content = None, readable = True, writes = Write_OK\<rparr>"
        "[(new_profile\<lparr>name := Some ''Asha''\<rparr>, ''2026-11-04T10:00:00''),
          (new_profile, ''2026-11-04T10:00:00.000250'')]"]
  by (simp del: submit_each.simps add: timestamps_of_def List.map_filter_simps)

text \<open>
  C9. On a fresh profile, \<^verbatim>\<open>update(name="Asha", email="asha@x.com")\<close>, then
  \<^verbatim>\<open>update(use_case="chatbot")\<close>, then finalize: the record appended to the store has the
  three values, \<^verbatim>\<open>null\<close> for company, role, team size and timeline, and the timestamp; the
  message returned contains "Asha", "chatbot" and "asha@x.com".
\<close>

theorem asha_scenario:
  assumes "writes db = Write_OK" and "store_usable db"
  shows "submit_lead_and_end
       (update_all new_profile
          [no_args\<lparr>name_arg := Some ''Asha'', email_arg := Some ''asha@x.com''\<rparr>,
           no_args\<lparr>use_case_arg := Some ''chatbot''\<rparr>])
       now db =
     (Inr ''Thanks Asha! I have recorded your interest in chatbot. We will contact you soon at asha@x.com. Goodbye!'',
      db\<lparr>content := Some (Doc (JArr (store_records db @
        [JObj [(''name'', JStr ''Asha''), (''company'', JNull), (''email'', JStr ''asha@x.com''),
               (''role'', JNull), (''use_case'', JStr ''chatbot''), (''team_size'', JNull),
               (''timeline'', JNull), (''timestamp'', JStr now)]])))\<rparr>) \<and>
     sublist ''Asha'' ''Thanks Asha! I have recorded your interest in chatbot. We will contact you soon at asha@x.com. Goodbye!'' \<and>
     sublist ''chatbot'' ''Thanks Asha! I have recorded your interest in chatbot. We will contact you soon at asha@x.com. Goodbye!'' \<and>
     sublist ''asha@x.com'' ''Thanks Asha! I have recorded your interest in chatbot. We will contact you soon at asha@x.com. Goodbye!''"
proof -
  let ?p = "update_all new_profile
          [no_args\<lparr>name_arg := Some ''Asha'', email_arg := Some ''asha@x.com''\<rparr>,
           no_args\<lparr>use_case_arg := Some ''chatbot''\<rparr>]"
  have p: "?p = \<lparr>name = Some ''Asha'', company = None, email = Some ''asha@x.com'',
      role = None, use_case = Some ''chatbot'', team_size = None, timeline = None\<rparr>"
    by (simp add: update_lead_profile_def no_args_def new_profile_def)
  have msg: "closing_message ?p =
      ''Thanks '' @ ''Asha'' @ ''! I have recorded your interest in '' @ ''chatbot'' @
      ''. We will contact you soon at '' @ ''asha@x.com'' @ ''. Goodbye!''"
    unfolding p by (simp add: closing_message_def)
  have entry: "lead_entry ?p now =
      JObj [(''name'', JStr ''Asha''), (''company'', JNull), (''email'', JStr ''asha@x.com''),
            (''role'', JNull), (''use_case'', JStr ''chatbot''), (''team_size'', JNull),
            (''timeline'', JNull), (''timestamp'', JStr now)]"
    unfolding p by (simp add: lead_entry_def asdict_def)
  have shape: "''Thanks Asha! I have recorded your interest in chatbot. We will contact you soon at asha@x.com. Goodbye!'' =
      ''Thanks '' @ ''Asha'' @ ''! I have recorded your interest in '' @ ''chatbot'' @
      ''. We will contact you soon at '' @ ''asha@x.com'' @ ''. Goodbye!''"
    by simp
  have 1: "sublist ''Asha'' (''Thanks '' @ ''Asha'' @ ''! I have recorded your interest in '' @
      ''chatbot'' @ ''. We will contact you soon at '' @ ''asha@x.com'' @ ''. Goodbye!'')"
    unfolding sublist_def by blast
  have 2: "sublist ''chatbot'' ((''Thanks '' @ ''Asha'' @ ''! I have recorded your interest in '') @
      ''chatbot'' @ ''. We will contact you soon at '' @ ''asha@x.com'' @ ''. Goodbye!'')"
    unfolding sublist_def by blast
  have 3: "sublist ''asha@x.com'' ((''Thanks '' @ ''Asha'' @
      ''! I have recorded your interest in '' @ ''chatbot'' @ ''. We will contact you soon at '') @
      ''asha@x.com'' @ ''. Goodbye!'')"
    unfolding sublist_def by blast
  have "submit_lead_and_end ?p now db =
      (Inr (closing_message ?p),
       db\<lparr>content := Some (Doc (JArr (store_records db @ [lead_entry ?p now])))\<rparr>)"
    using assms by (rule submit_usable)
  then show ?thesis
    unfolding entry msg shape using 1 2 3 by simp
qed

theorem asha_scenario_witness:
  "submit_lead_and_end
     (update_all new_profile
        [no_args\<lparr>name_arg := Some ''Asha'', email_arg := Some ''asha@x.com''\<rparr>,
         no_args\<lparr>use_case_arg := Some ''chatbot''\<rparr>])
     ''2026-11-04T10:00:00'' \<lparr>content = None, readable = True, writes = Write_OK\<rparr> =
   (Inr ''Thanks Asha! I have recorded your interest in chatbot. We will contact you soon at asha@x.com. Goodbye!'',
    \<lparr>content = Some (Doc (JArr
        [JObj [(''name'', JStr ''Asha''), (''company'', JNull), (''email'', JStr ''asha@x.com''),
               (''role'', JNull), (''use_case'', JStr ''chatbot''), (''team_size'', JNull),
               (''timeline'', JNull), (''timestamp'', JStr ''2026-11-04T10:00:00'')]])),
     readable = True, writes = Write_OK\<rparr>)"
  using asha_scenario
    [of "\<lparr>content = None, readable = True, writes = Write_OK\<rparr>" "''2026-11-04T10:00:00''"]
  by (simp add: store_usable_def store_records_def)

section \<open>Properties of the knowledge-base loader\<close>

lemma load_knowledge_base_seeds:
  assumes "content path = None" and "writes path = Write_OK" and "readable path"
  shows "load_knowledge_base dumps path =
     (dumps DEFAULT_FAQ, path\<lparr>content := Some (Doc DEFAULT_FAQ)\<rparr>)"
  using assms
  by (simp add: load_knowledge_base_def load_knowledge_base_try_def path_exists_def
      write_json_def read_json_def)

lemma load_knowledge_base_reads:
  assumes "content path = Some (Doc j)" and "readable path"
  shows "load_knowledge_base dumps path = (dumps j, path)"
  using assms
  by (simp add: load_knowledge_base_def load_knowledge_base_try_def path_exists_def
      read_json_def)

lemma load_knowledge_base_try_raises:
  assumes "(content path = None \<and> writes path \<noteq> Write_OK) \<or> \<not> readable path \<or>
           content path = Some Unparsable"
  shows "\<exists>e. fst (load_knowledge_base_try dumps path) = Inl e"
proof (cases "content path")
  case None
  then show ?thesis
    using assms
    by (cases "writes path")
       (simp_all add: load_knowledge_base_try_def path_exists_def write_json_def read_json_def)
next
  case (Some c)
  then show ?thesis
    using assms
    by (cases c)
       (auto simp: load_knowledge_base_try_def path_exists_def read_json_def)
qed

lemma load_knowledge_base_empty_on_error:
  assumes "fst (load_knowledge_base_try dumps path) = Inl e"
  shows "load_knowledge_base dumps path = ('''', snd (load_knowledge_base_try dumps path))"
  using assms
  by (cases "load_knowledge_base_try dumps path") (simp add: load_knowledge_base_def)

text \<open>
  C8. The loader returns in every state of the file and never raises. An absent file that
  can be written and read is first seeded with \<^verbatim>\<open>DEFAULT_FAQ\<close> and the text returned is the
  serialization of that document; an existing readable file that loads as \<open>j\<close> is left as
  it is and the text is the serialization of the whole of \<open>j\<close>. In every other state (the
  seeding write fails, the file cannot be read, its text does not parse) the block raises
  and the loader returns the empty string; these states and the two above are all there
  are.
\<close>

theorem load_knowledge_base_never_fails:
  "(content path = None \<and> writes path = Write_OK \<and> readable path \<longrightarrow>
      load_knowledge_base dumps path =
        (dumps DEFAULT_FAQ, path\<lparr>content := Some (Doc DEFAULT_FAQ)\<rparr>)) \<and>
   (content path = Some (Doc j) \<and> readable path \<longrightarrow>
      load_knowledge_base dumps path = (dumps j, path)) \<and>
   (fst (load_knowledge_base_try dumps path) = Inl e \<longrightarrow>
      load_knowledge_base dumps path = ('''', snd (load_knowledge_base_try dumps path))) \<and>
   ((content path = None \<and> writes path \<noteq> Write_OK) \<or> \<not> readable path \<or>
      content path = Some Unparsable \<longrightarrow>
      (\<exists>e'. fst (load_knowledge_base_try dumps path) = Inl e') \<and>
      fst (load_knowledge_base dumps path) = '''')"
proof -
  have "fst (load_knowledge_base dumps path) = ''''"
    if "(content path = None \<and> writes path \<noteq> Write_OK) \<or> \<not> readable path \<or>
        content path = Some Unparsable"
  proof -
    from that obtain e' where "fst (load_knowledge_base_try dumps path) = Inl e'"
      using load_knowledge_base_try_raises by blast
    then show ?thesis
      by (simp add: load_knowledge_base_empty_on_error)
  qed
  then show ?thesis
    using load_knowledge_base_seeds [of path dumps] load_knowledge_base_reads [of path j dumps]
      load_knowledge_base_empty_on_error [of dumps path e]
      load_knowledge_base_try_raises [of path dumps]
    by blast
qed

text \<open>
  With a stand-in for \<^verbatim>\<open>json.dumps\<close> that tells the default document from any other: the
  absent file is seeded and its text returned; a file that does not parse gives the empty
  string and stays as it is.
\<close>

theorem load_knowledge_base_never_fails_witness:
  "load_knowledge_base (\<lambda>j. if j = DEFAULT_FAQ then ''default'' else ''other'')
     \<lparr>content = None, readable = True, writes = Write_OK\<rparr> =
   (''default'', \<lparr>content = Some (Doc DEFAULT_FAQ), readable = True, writes = Write_OK\<rparr>) \<and>
   load_knowledge_base (\<lambda>j. if j = DEFAULT_FAQ then ''default'' else ''other'')
     \<lparr>content = Some (Doc (JArr [])), readable = True, writes = Write_Refused\<rparr> =
   (''other'', \<lparr>content = Some (Doc (JArr [])), readable = True, writes = Write_Refused\<rparr>) \<and>
   fst (load_knowledge_base_try (\<lambda>j. if j = DEFAULT_FAQ then ''default'' else ''other'')
     \<lparr>content = Some Unparsable, readable = True, writes = Write_OK\<rparr>) = Inl JSONDecodeError \<and>
   load_knowledge_base (\<lambda>j. if j = DEFAULT_FAQ then ''default'' else ''other'')
     \<lparr>content = Some Unparsable, readable = True, writes = Write_OK\<rparr> =
   ('''', \<lparr>content = Some Unparsable, readable = True, writes = Write_OK\<rparr>) \<and>
   fst (load_knowledge_base (\<lambda>j. if j = DEFAULT_FAQ then ''default'' else ''other'')
     \<lparr>content = None, readable = True, writes = Write_Broken\<rparr>) = ''''"
  using load_knowledge_base_never_fails
    [of "\<lparr>content = None, readable = True, writes = Write_OK\<rparr>"
        "\<lambda>j. if j = DEFAULT_FAQ then ''default'' else ''other''"]
    load_knowledge_base_never_fails
    [of "\<lparr>content = Some (Doc (JArr [])), readable = True, writes = Write_Refused\<rparr>"
        "\<lambda>j. if j = DEFAULT_FAQ then ''default'' else ''other''" "JArr []"]
    load_knowledge_base_never_fails
    [of "\<lparr>content = Some Unparsable, readable = True, writes = Write_OK\<rparr>"
        "\<lambda>j. if j = DEFAULT_FAQ then ''default'' else ''other''" _ JSONDecodeError]
    load_knowledge_base_never_fails
    [of "\<lparr>content = None, readable = True, writes = Write_Broken\<rparr>"
        "\<lambda>j. if j = DEFAULT_FAQ then ''default'' else ''other''"]
  by (simp add: load_knowledge_base_try_def path_exists_def read_json_def DEFAULT_FAQ_def)

section \<open>Keys outside the signature\<close>

lemma bind_fields_other_key:
  "k \<notin> set parameter_names \<Longrightarrow> bind_fields (given(k \<mapsto> v)) = bind_fields given"
  by (auto simp: bind_fields_def field_value_def parameter_names_def)

lemma bind_fields_restrict:
  "bind_fields (given |` set parameter_names) = bind_fields given"
  by (simp add: bind_fields_def field_value_def parameter_names_def)

text \<open>
  C7. The update has no error condition: for every profile and every mapping of field
  names to optional values it returns the fixed acknowledgement. A key outside the seven
  recognized ones is ignored: the result is the result on the mapping cut down to the
  recognized keys, and adding such a key with any value changes nothing. The profile is
  updated only at the recognized keys: each attribute takes the value of its own key when
  that value is non-empty and keeps its value otherwise.
\<close>

theorem update_ignores_unrecognized_keys:
  "snd (update_tool_call p given) = ''Lead profile updated successfully.'' \<and>
   update_tool_call p (given |` set parameter_names) = update_tool_call p given \<and>
   (k \<notin> set parameter_names \<longrightarrow>
      update_tool_call p (given(k \<mapsto> v)) = update_tool_call p given) \<and>
   name (fst (update_tool_call p given)) =
     (if truthy (field_value given ''name'') then field_value given ''name'' else name p) \<and>
   company (fst (update_tool_call p given)) =
     (if truthy (field_value given ''company'') then field_value given ''company''
      else company p) \<and>
   email (fst (update_tool_call p given)) =
     (if truthy (field_value given ''email'') then field_value given ''email'' else email p) \<and>
   role (fst (update_tool_call p given)) =
     (if truthy (field_value given ''role'') then field_value given ''role'' else role p) \<and>
   use_case (fst (update_tool_call p given)) =
     (if truthy (field_value given ''use_case'') then field_value given ''use_case''
      else use_case p) \<and>
   team_size (fst (update_tool_call p given)) =
     (if truthy (field_value given ''team_size'') then field_value given ''team_size''
      else team_size p) \<and>
   timeline (fst (update_tool_call p given)) =
     (if truthy (field_value given ''timeline'') then field_value given ''timeline''
      else timeline p)"
proof -
  have other: "update_tool_call p (given(k \<mapsto> v)) = update_tool_call p given"
    if "k \<notin> set parameter_names"
    using that by (simp add: update_tool_call_def bind_fields_other_key)
  have cut: "update_tool_call p (given |` set parameter_names) = update_tool_call p given"
    by (simp only: update_tool_call_def bind_fields_restrict)
  have attrs: "bind_fields given =
     \<lparr>name_arg = field_value given ''name'', company_arg = field_value given ''company'',
      email_arg = field_value given ''email'', role_arg = field_value given ''role'',
      use_case_arg = field_value given ''use_case'',
      team_size_arg = field_value given ''team_size'',
      timeline_arg = field_value given ''timeline''\<rparr>"
    by (rule bind_fields_def)
  show ?thesis
    unfolding cut using other by (simp add: update_tool_call_def attrs)
qed

text \<open>
  A call with the name "Asha", an empty email and the unrecognized key "phone": the name
  is set, the email stays unset, and the call is the same as the one without "phone".
\<close>

theorem update_ignores_unrecognized_keys_witness:
  "''phone'' \<notin> set parameter_names \<and>
   update_tool_call new_profile
     [''name'' \<mapsto> Some ''Asha'', ''email'' \<mapsto> Some [], ''phone'' \<mapsto> Some ''555''] =
   update_tool_call new_profile [''name'' \<mapsto> Some ''Asha'', ''email'' \<mapsto> Some []] \<and>
   update_tool_call new_profile
     [''name'' \<mapsto> Some ''Asha'', ''email'' \<mapsto> Some [], ''phone'' \<mapsto> Some ''555''] =
   (new_profile\<lparr>name := Some ''Asha''\<rparr>, ''Lead profile updated successfully.'')"
proof -
  have known: "''phone'' \<notin> set parameter_names"
    by (simp add: parameter_names_def)
  have same: "update_tool_call new_profile
     [''name'' \<mapsto> Some ''Asha'', ''email'' \<mapsto> Some [], ''phone'' \<mapsto> Some ''555''] =
     update_tool_call new_profile [''name'' \<mapsto> Some ''Asha'', ''email'' \<mapsto> Some []]"
    using update_ignores_unrecognized_keys
      [of new_profile "[''name'' \<mapsto> Some ''Asha'', ''email'' \<mapsto> Some []]"
          "''phone''" "Some ''555''"] known
    by blast
  have result: "update_tool_call new_profile [''name'' \<mapsto> Some ''Asha'', ''email'' \<mapsto> Some []] =
     (new_profile\<lparr>name := Some ''Asha''\<rparr>, ''Lead profile updated successfully.'')"
    by (simp add: update_tool_call_def bind_fields_def field_value_def update_lead_profile_def
        new_profile_def)
  show ?thesis
    using known same result by simp
qed

end
